theory Spec2Isabelle
  imports Complex_Main "HOL-Library.Word"
begin

section \<open>The photo pipeline of bot.py\<close>

text \<open>
  The file \<^verbatim>\<open>bot.py\<close> computes four features of a photo (\<^verbatim>\<open>extract_image_features\<close>),
  lets a trained classifier pick a detection model from them, runs the model and draws
  its detections on a copy of the photo (\<^verbatim>\<open>draw_boxes\<close>).

  Python floats are modelled as real numbers, Python integers as \<open>int\<close> or \<open>nat\<close>.
  What OpenCV, NumPy, Pillow and the trained models compute is not code of \<^verbatim>\<open>bot.py\<close>:
  those functions are parameters of the model.
\<close>

subsection \<open>Errors\<close>

datatype error = KeyError | IndexError | ValueError | ZeroDivisionError

subsection \<open>Python helpers\<close>

text \<open>
  \<^verbatim>\<open>xs[i]\<close> on a Python list: an index from \<open>-len\<close> to \<open>-1\<close> counts from the end, an
  index outside \<open>-len .. len-1\<close> raises \<^verbatim>\<open>IndexError\<close>.
\<close>

definition getitem :: "'a list \<Rightarrow> int \<Rightarrow> error + 'a" where
  "getitem xs i =
     (if 0 \<le> i \<and> i < int (length xs) then Inr (xs ! nat i)
      else if - int (length xs) \<le> i \<and> i < 0 then Inr (xs ! nat (i + int (length xs)))
      else Inl IndexError)"

text \<open>\<^verbatim>\<open>zip(a, b, c)\<close> stops as soon as one of its arguments is exhausted.\<close>

fun zip3 :: "'a list \<Rightarrow> 'b list \<Rightarrow> 'c list \<Rightarrow> ('a \<times> 'b \<times> 'c) list" where
  "zip3 (a # as) (b # bs) (c # cs) = (a, b, c) # zip3 as bs cs"
| "zip3 _ _ _ = []"

text \<open>The decimal digits of a natural number, as \<^verbatim>\<open>str\<close> prints them.\<close>

definition digit :: "nat \<Rightarrow> char" where
  "digit d = ''0123456789'' ! d"

function decimal :: "nat \<Rightarrow> string" where
  "decimal n = (if n < 10 then [digit n] else decimal (n div 10) @ [digit (n mod 10)])"
  by pat_completeness auto
termination
  by (relation "measure (\<lambda>n. n)") auto

declare decimal.simps [simp del]

text \<open>
  The format \<^verbatim>\<open>:.0f\<close> prints the nearest integer, a tie going to the even neighbour, with
  the sign of the number printed (so a small negative number prints as \<^verbatim>\<open>-0\<close>).
\<close>

definition round_half_even :: "real \<Rightarrow> int" where
  "round_half_even x =
     (if x - of_int \<lfloor>x\<rfloor> < 1 / 2 then \<lfloor>x\<rfloor>
      else if 1 / 2 < x - of_int \<lfloor>x\<rfloor> then \<lfloor>x\<rfloor> + 1
      else if even \<lfloor>x\<rfloor> then \<lfloor>x\<rfloor> else \<lfloor>x\<rfloor> + 1)"

definition format_0f :: "real \<Rightarrow> string" where
  "format_0f x = (if x < 0 then ''-'' else '''') @ decimal (nat \<bar>round_half_even x\<bar>)"

subsection \<open>Images and what is drawn on them\<close>

text \<open>
  \<^verbatim>\<open>np.array(image)\<close> has shape \<open>(h, w, 3)\<close> for a colour image and \<open>(h, w)\<close> for a
  single-channel one; its entries are bytes.
\<close>

type_synonym byte = "8 word"

datatype img_array =
    Color "(byte \<times> byte \<times> byte) list list"
  | Mono "byte list list"

record image =
  img_size :: "nat \<times> nat"
  array :: img_array
  info :: "(string \<times> string) list"

datatype font = TrueType string nat | DefaultFont

text \<open>
  One call of \<^verbatim>\<open>ImageDraw\<close>: \<^verbatim>\<open>draw.rectangle(xy, outline=..., width=...)\<close> or
  \<^verbatim>\<open>draw.text(xy, text, font=..., fill=...)\<close>.
\<close>

datatype marking =
    Rectangle "real list" string nat
  | Text "real \<times> real" string font string

text \<open>
  An image object that is drawn on: the picture it was created from and the
  \<^verbatim>\<open>ImageDraw\<close> calls made on it since, oldest first. Drawing never changes the size.
\<close>

record canvas =
  picture :: image
  drawn :: "marking list"

definition rectangle :: "canvas \<Rightarrow> real list \<Rightarrow> string \<Rightarrow> nat \<Rightarrow> canvas" where
  "rectangle c xy outline width = c\<lparr>drawn := drawn c @ [Rectangle xy outline width]\<rparr>"

definition text_draw :: "canvas \<Rightarrow> real \<times> real \<Rightarrow> string \<Rightarrow> font \<Rightarrow> string \<Rightarrow> canvas" where
  "text_draw c xy label fnt fill = c\<lparr>drawn := drawn c @ [Text xy label fnt fill]\<rparr>"

subsection \<open>draw_boxes\<close>

text \<open>
  \<^verbatim>\<open>ImageFont.truetype("OCR-B.ttf", 16)\<close>, with \<^verbatim>\<open>ImageFont.load_default()\<close> when it
  raises \<^verbatim>\<open>IOError\<close>. The font loader of the environment is a parameter; \<open>None\<close> is the
  \<^verbatim>\<open>IOError\<close>.
\<close>

definition load_font :: "(string \<Rightarrow> nat \<Rightarrow> font option) \<Rightarrow> font" where
  "load_font truetype =
     (case truetype ''OCR-B.ttf'' 16 of Some f \<Rightarrow> f | None \<Rightarrow> DefaultFont)"

text \<open>Line 108: \<^verbatim>\<open>label = f"{categories[lbl]} {score*100:.0f}%"\<close>.\<close>

definition label_text :: "string list \<Rightarrow> int \<Rightarrow> real \<Rightarrow> error + string" where
  "label_text categories lbl score =
     (case getitem categories lbl of
        Inl e \<Rightarrow> Inl e
      | Inr name \<Rightarrow> Inr (name @ '' '' @ format_0f (score * 100) @ ''%''))"

definition offsets :: "(real \<times> real) list" where
  "offsets = [(-1, -1), (-1, 0), (-1, 1), (0, -1), (0, 1), (1, -1), (1, 0), (1, 1)]"

text \<open>
  The body of the loop for one detection that passed the threshold (lines 106 to 114).
  The box is unpacked into four numbers (\<^verbatim>\<open>ValueError\<close> otherwise); the rectangle is
  drawn before the category is looked up, so it stays on the image when the lookup raises.
  The result is the exception raised, if any, and the image object after the step.
\<close>

definition draw_detection ::
  "font \<Rightarrow> string list \<Rightarrow> real list \<times> int \<times> real \<Rightarrow> canvas \<Rightarrow> error option \<times> canvas" where
  "draw_detection fnt categories d c =
     (case d of (box, lbl, score) \<Rightarrow>
        (case box of
           [x1, y1, x2, y2] \<Rightarrow>
             (let c1 = rectangle c [x1, y1, x2, y2] ''lime'' 3 in
              case label_text categories lbl score of
                Inl e \<Rightarrow> (Some e, c1)
              | Inr label \<Rightarrow>
                  (let c2 = fold (\<lambda>(dx, dy) c'. text_draw c' (x1 + 3 + dx, y1 - 3 + dy) label fnt ''black'')
                              offsets c1
                   in (None, text_draw c2 (x1 + 3, y1 - 3) label fnt ''white'')))
         | _ \<Rightarrow> (Some ValueError, c)))"

text \<open>The loop of lines 103 to 114 over the zipped detections.\<close>

fun draw_loop ::
  "font \<Rightarrow> string list \<Rightarrow> real \<Rightarrow> (real list \<times> int \<times> real) list \<Rightarrow> canvas \<Rightarrow> error option \<times> canvas" where
  "draw_loop fnt categories threshold [] c = (None, c)"
| "draw_loop fnt categories threshold ((box, lbl, score) # ds) c =
     (if score < threshold then draw_loop fnt categories threshold ds c
      else (case draw_detection fnt categories (box, lbl, score) c of
              (Some e, c') \<Rightarrow> (Some e, c')
            | (None, c') \<Rightarrow> draw_loop fnt categories threshold ds c'))"

text \<open>
  \<^verbatim>\<open>draw_boxes(image, boxes, labels, scores, categories, threshold)\<close> draws on the image
  object it is given and returns that object. The result is the exception raised, if any,
  and the object after the call.
\<close>

definition draw_boxes ::
  "(string \<Rightarrow> nat \<Rightarrow> font option) \<Rightarrow> canvas \<Rightarrow> real list list \<Rightarrow> int list \<Rightarrow> real list \<Rightarrow>
     string list \<Rightarrow> real \<Rightarrow> error option \<times> canvas" where
  "draw_boxes truetype img boxes labels scores categories threshold =
     draw_loop (load_font truetype) categories threshold (zip3 boxes labels scores) img"


subsection \<open>Image objects on the heap\<close>

text \<open>
  \<^verbatim>\<open>draw_boxes\<close> draws in place, and \<^verbatim>\<open>handle_photo\<close> hands it \<^verbatim>\<open>image.copy()\<close>. Which
  object is changed depends on the aliasing, so the image objects live in a heap: a
  reference is an index into the list of objects, and a new object is appended.
\<close>

type_synonym ref = nat

type_synonym heap = "canvas list"

definition copy :: "heap \<Rightarrow> ref \<Rightarrow> ref \<times> heap" where
  "copy h r = (length h, h @ [h ! r])"

definition draw_boxes_ref ::
  "(string \<Rightarrow> nat \<Rightarrow> font option) \<Rightarrow> heap \<Rightarrow> ref \<Rightarrow> real list list \<Rightarrow> int list \<Rightarrow> real list \<Rightarrow>
     string list \<Rightarrow> real \<Rightarrow> (error + ref) \<times> heap" where
  "draw_boxes_ref truetype h r boxes labels scores categories threshold =
     (case draw_boxes truetype (h ! r) boxes labels scores categories threshold of
        (None, c') \<Rightarrow> (Inr r, h[r := c'])
      | (Some e, c') \<Rightarrow> (Inl e, h[r := c']))"

text \<open>
  Line 150 of \<^verbatim>\<open>handle_photo\<close>:
  \<^verbatim>\<open>result_img = draw_boxes(image.copy(), pred["boxes"], pred["labels"], pred["scores"], categories)\<close>,
  with the default threshold 0.5.
\<close>

definition annotate ::
  "(string \<Rightarrow> nat \<Rightarrow> font option) \<Rightarrow> heap \<Rightarrow> ref \<Rightarrow> real list list \<Rightarrow> int list \<Rightarrow> real list \<Rightarrow>
     string list \<Rightarrow> (error + ref) \<times> heap" where
  "annotate truetype h img boxes labels scores categories =
     (case copy h img of
        (r, h1) \<Rightarrow> draw_boxes_ref truetype h1 r boxes labels scores categories (1 / 2))"

subsection \<open>Model selection\<close>

text \<open>
  An entry of \<^verbatim>\<open>models_available\<close>: the dictionary with the keys \<^verbatim>\<open>"name"\<close>,
  \<^verbatim>\<open>"model"\<close> and \<^verbatim>\<open>"categories"\<close> that \<^verbatim>\<open>initialize_models\<close> builds.
\<close>

record 'm model_info =
  info_name :: string
  info_model :: 'm
  info_categories :: "string list"

type_synonym fingerprint = "int \<times> real \<times> int \<times> real"

text \<open>
  Lines 140 to 144 of \<^verbatim>\<open>handle_photo\<close>: the trained selector predicts a key from the four
  features, and the key is looked up in the dictionary \<^verbatim>\<open>models_available\<close>
  (\<^verbatim>\<open>KeyError\<close> when it is absent). The selector is a parameter.
\<close>

definition select_model ::
  "(fingerprint \<Rightarrow> 'k) \<Rightarrow> ('k \<rightharpoonup> 'm model_info) \<Rightarrow> fingerprint \<Rightarrow>
     error + ('k \<times> 'm \<times> string list)" where
  "select_model selector models_available feats =
     (let chosen_key = selector feats in
      case models_available chosen_key of
        None \<Rightarrow> Inl KeyError
      | Some mi \<Rightarrow> Inr (chosen_key, info_model mi, info_categories mi))"

subsection \<open>extract_image_features\<close>

text \<open>
  The functions of OpenCV that \<^verbatim>\<open>extract_image_features\<close> calls. \<open>Sobel g dx dy ksize\<close> is
  \<^verbatim>\<open>cv2.Sobel(g, cv2.CV_64F, dx, dy, ksize=ksize)\<close>; \<open>threshold_otsu g\<close> is the mask returned
  by \<^verbatim>\<open>cv2.threshold(g, 0, 255, cv2.THRESH_BINARY + cv2.THRESH_OTSU)\<close>; \<open>findContours\<close>
  is called with \<^verbatim>\<open>cv2.RETR_EXTERNAL, cv2.CHAIN_APPROX_SIMPLE\<close>.
\<close>

record cv2 =
  cvtColor_RGB2HSV :: "(byte \<times> byte \<times> byte) list list \<Rightarrow> (byte \<times> byte \<times> byte) list list"
  cvtColor_RGB2GRAY :: "(byte \<times> byte \<times> byte) list list \<Rightarrow> byte list list"
  Sobel :: "byte list list \<Rightarrow> nat \<Rightarrow> nat \<Rightarrow> nat \<Rightarrow> real list list"
  threshold_otsu :: "byte list list \<Rightarrow> byte list list"
  findContours :: "byte list list \<Rightarrow> (int \<times> int) list list"
  contourArea :: "(int \<times> int) list \<Rightarrow> real"

text \<open>
  \<^verbatim>\<open>np.sum\<close> of an array of bytes adds them up in an unsigned 64-bit integer;
  \<^verbatim>\<open>np.mean\<close> is the sum over the number of elements.
\<close>

definition np_sum :: "img_array \<Rightarrow> nat" where
  "np_sum a =
     (case a of
        Color rows \<Rightarrow> sum_list (map (\<lambda>(r, g, b). unat r + unat g + unat b) (concat rows))
      | Mono rows \<Rightarrow> sum_list (map unat (concat rows))) mod 2 ^ 64"

definition np_mean :: "real list \<Rightarrow> real" where
  "np_mean xs = sum_list xs / real (length xs)"

text \<open>\<^verbatim>\<open>int(x)\<close> of a float truncates towards zero.\<close>

definition py_int :: "real \<Rightarrow> int" where
  "py_int x = (if 0 \<le> x then \<lfloor>x\<rfloor> else \<lceil>x\<rceil>)"

text \<open>Line 52: \<^verbatim>\<open>img_hash = np.sum(img_array) % 1000 / 1000.0\<close>.\<close>

definition img_hash :: "img_array \<Rightarrow> real" where
  "img_hash a = real (np_sum a mod 1000) / 1000"

text \<open>Lines 54 to 64: saturation, brightness and the grey plane.\<close>

definition saturation :: "cv2 \<Rightarrow> img_array \<Rightarrow> real" where
  "saturation cv a =
     (case a of
        Color rows \<Rightarrow>
          np_mean (map (\<lambda>(h, s, v). real (unat s)) (concat (cvtColor_RGB2HSV cv rows))) / 255
      | Mono rows \<Rightarrow> 0)"

definition brightness :: "cv2 \<Rightarrow> img_array \<Rightarrow> real" where
  "brightness cv a =
     (case a of
        Color rows \<Rightarrow>
          np_mean (map (\<lambda>(h, s, v). real (unat v)) (concat (cvtColor_RGB2HSV cv rows))) / 255
      | Mono rows \<Rightarrow> np_mean (map (\<lambda>v. real (unat v)) (concat rows)) / 255)"

definition gray_plane :: "cv2 \<Rightarrow> img_array \<Rightarrow> byte list list" where
  "gray_plane cv a = (case a of Color rows \<Rightarrow> cvtColor_RGB2GRAY cv rows | Mono rows \<Rightarrow> rows)"

text \<open>Lines 66 to 69: the mean gradient magnitude over 255.\<close>

definition detail_level :: "cv2 \<Rightarrow> byte list list \<Rightarrow> real" where
  "detail_level cv gray =
     (let sobelx = Sobel cv gray 1 0 3;
          sobely = Sobel cv gray 0 1 3;
          gradient_magnitude = map2 (\<lambda>gx gy. sqrt (gx\<^sup>2 + gy\<^sup>2)) (concat sobelx) (concat sobely)
      in np_mean gradient_magnitude / 255)"

text \<open>Lines 71 to 75: the contours of the Otsu mask whose area is above 0.1% of the image.\<close>

definition significant_contours :: "cv2 \<Rightarrow> nat \<Rightarrow> nat \<Rightarrow> byte list list \<Rightarrow> (int \<times> int) list list" where
  "significant_contours cv w h gray =
     (let binary = threshold_otsu cv gray;
          contours = findContours cv binary;
          min_area = real (w * h) * (1 / 1000)
      in filter (\<lambda>c. contourArea cv c > min_area) contours)"

text \<open>Lines 79 to 83.\<close>

definition mean_area :: "cv2 \<Rightarrow> nat \<Rightarrow> nat \<Rightarrow> (int \<times> int) list list \<Rightarrow> real" where
  "mean_area cv w h sig =
     (if length sig > 0 then np_mean (map (contourArea cv) sig) / real (w * h) else 1 / 10)"

text \<open>
  The function itself. \<^verbatim>\<open>h / w\<close> raises \<^verbatim>\<open>ZeroDivisionError\<close> for an image of width 0.
  The brightness of lines 58 and 64 is computed and never used.
\<close>

definition extract_image_features :: "cv2 \<Rightarrow> image \<Rightarrow> error + fingerprint" where
  "extract_image_features cv img =
     (case img_size img of (w, h) \<Rightarrow>
        if w = 0 then Inl ZeroDivisionError
        else
          (let ratio_hw = real h / real w;
               a = array img;
               ih = img_hash a;
               sat = saturation cv a;
               gray = gray_plane cv a;
               detail = detail_level cv gray;
               sig = significant_contours cv w h gray;
               num_objects = length sig;
               ma = mean_area cv w h sig;
               num_objects_mod = max 1 (py_int (real num_objects * (8 / 10 + 4 / 10 * ih)));
               mean_area_mod = ma * (7 / 10 + 6 / 10 * ih);
               categories_mod = max 1 (py_int (5 * sat + 3 * detail + 2 * ih))
           in Inr (num_objects_mod, min mean_area_mod 1, min categories_mod 10, ratio_hw)))"


subsection \<open>OpenCV on an image of a single grey value\<close>

text \<open>
  The examples below need the answers of OpenCV on concrete images. On an image all of
  whose pixels have the same grey value \<open>v\<close> (red, green and blue equal to \<open>v\<close>) they are:
  hue 0, saturation 0 and value \<open>v\<close>; the grey plane \<open>v\<close>; both Sobel derivatives 0; the Otsu
  threshold 0, so that the mask is 255 where \<open>v > 0\<close>; for a mask that is 255 everywhere one
  external contour, the frame of the image through the centres of its corner pixels, and no
  contour for a mask that is 0 everywhere; and as the area of a contour the area of its
  polygon. \<open>opencv_on_uniform\<close> gives these answers. It stands for OpenCV on such images only.
\<close>

definition polygon_area :: "(int \<times> int) list \<Rightarrow> real" where
  "polygon_area ps =
     \<bar>real_of_int (sum_list (map2 (\<lambda>(x1, y1) (x2, y2). x1 * y2 - x2 * y1) ps (rotate1 ps)))\<bar> / 2"

definition frame_contours :: "byte list list \<Rightarrow> (int \<times> int) list list" where
  "frame_contours binary =
     (if binary \<noteq> [] \<and> list_all (\<lambda>row. row \<noteq> [] \<and> list_all (\<lambda>v. v = 255) row) binary
      then [[(0, 0), (0, int (length binary) - 1),
             (int (length (hd binary)) - 1, int (length binary) - 1),
             (int (length (hd binary)) - 1, 0)]]
      else [])"

definition opencv_on_uniform :: cv2 where
  "opencv_on_uniform =
     \<lparr>cvtColor_RGB2HSV = map (map (\<lambda>(r, g, b). (0, 0, r))),
      cvtColor_RGB2GRAY = map (map (\<lambda>(r, g, b). r)),
      Sobel = (\<lambda>g dx dy ksize. map (map (\<lambda>v. 0)) g),
      threshold_otsu = map (map (\<lambda>v. if 0 < v then 255 else 0)),
      findContours = frame_contours,
      contourArea = polygon_area\<rparr>"

text \<open>A picture of \<open>w\<close> by \<open>h\<close> pixels, all of the grey value \<open>v\<close>.\<close>

definition uniform_image :: "nat \<Rightarrow> nat \<Rightarrow> byte \<Rightarrow> image" where
  "uniform_image w h v =
     \<lparr>img_size = (w, h), array = Color (replicate h (replicate w (v, v, v))), info = []\<rparr>"

section \<open>Properties of draw_boxes\<close>

subsection \<open>Indexing, zipping and one step of the loop\<close>

lemma getitem_in_range:
  "- int (length xs) \<le> i \<Longrightarrow> i < int (length xs) \<Longrightarrow> \<exists>x. getitem xs i = Inr x"
  by (auto simp: getitem_def)

lemma getitem_Inl_iff:
  "getitem xs i = Inl e \<longleftrightarrow> e = IndexError \<and> (i < - int (length xs) \<or> int (length xs) \<le> i)"
  by (auto simp: getitem_def)

lemma label_text_Inl_iff:
  "label_text cats lbl score = Inl e \<longleftrightarrow>
     e = IndexError \<and> (lbl < - int (length cats) \<or> int (length cats) \<le> lbl)"
proof -
  have "label_text cats lbl score = Inl e \<longleftrightarrow> getitem cats lbl = Inl e"
    by (cases "getitem cats lbl") (simp_all add: label_text_def)
  then show ?thesis by (simp add: getitem_Inl_iff)
qed

lemma length_four:
  "length (box :: 'a list) = 4 \<longleftrightarrow> (\<exists>x1 y1 x2 y2. box = [x1, y1, x2, y2])"
  by (auto simp: length_Suc_conv eval_nat_numeral)

lemma fold_text_draw:
  "fold (\<lambda>(dx, dy) c'. text_draw c' (f dx dy) label fnt fill) xs c =
     c\<lparr>drawn := drawn c @ map (\<lambda>(dx, dy). Text (f dx dy) label fnt fill) xs\<rparr>"
  by (induction xs arbitrary: c) (auto simp: text_draw_def)

lemma draw_detection_drawn:
  assumes "label_text cats lbl score = Inr label"
  shows "draw_detection fnt cats ([x1, y1, x2, y2], lbl, score) c =
           (None, c\<lparr>drawn := drawn c @
              Rectangle [x1, y1, x2, y2] ''lime'' 3 #
              map (\<lambda>(dx, dy). Text (x1 + 3 + dx, y1 - 3 + dy) label fnt ''black'') offsets @
              [Text (x1 + 3, y1 - 3) label fnt ''white'']\<rparr>)"
proof -
  let ?c1 = "rectangle c [x1, y1, x2, y2] ''lime'' 3"
  have "draw_detection fnt cats ([x1, y1, x2, y2], lbl, score) c =
          (None, text_draw
             (fold (\<lambda>(dx, dy) c'. text_draw c' (x1 + 3 + dx, y1 - 3 + dy) label fnt ''black'')
                offsets ?c1)
             (x1 + 3, y1 - 3) label fnt ''white'')"
    using assms by (simp add: draw_detection_def)
  also have "\<dots> = (None, c\<lparr>drawn := drawn c @
              Rectangle [x1, y1, x2, y2] ''lime'' 3 #
              map (\<lambda>(dx, dy). Text (x1 + 3 + dx, y1 - 3 + dy) label fnt ''black'') offsets @
              [Text (x1 + 3, y1 - 3) label fnt ''white'']\<rparr>)"
    unfolding fold_text_draw by (simp add: rectangle_def text_draw_def)
  finally show ?thesis .
qed

lemma draw_detection_raises:
  assumes "label_text cats lbl score = Inl e"
  shows "draw_detection fnt cats ([x1, y1, x2, y2], lbl, score) c =
           (Some e, c\<lparr>drawn := drawn c @ [Rectangle [x1, y1, x2, y2] ''lime'' 3]\<rparr>)"
  using assms by (simp add: draw_detection_def rectangle_def)

lemma draw_detection_malformed:
  assumes "length box \<noteq> 4"
  shows "draw_detection fnt cats (box, lbl, score) c = (Some ValueError, c)"
  using assms by (auto simp: draw_detection_def split: list.splits)

text \<open>The three ways one step of the loop can end.\<close>

lemma draw_detection_cases:
  obtains
    (drawn) x1 y1 x2 y2 label where "box = [x1, y1, x2, y2]"
      and "label_text cats lbl score = Inr label"
      and "draw_detection fnt cats (box, lbl, score) c =
             (None, c\<lparr>drawn := drawn c @
                Rectangle [x1, y1, x2, y2] ''lime'' 3 #
                map (\<lambda>(dx, dy). Text (x1 + 3 + dx, y1 - 3 + dy) label fnt ''black'') offsets @
                [Text (x1 + 3, y1 - 3) label fnt ''white'']\<rparr>)"
  | (index) x1 y1 x2 y2 where "box = [x1, y1, x2, y2]"
      and "lbl < - int (length cats) \<or> int (length cats) \<le> lbl"
      and "draw_detection fnt cats (box, lbl, score) c =
             (Some IndexError, c\<lparr>drawn := drawn c @ [Rectangle [x1, y1, x2, y2] ''lime'' 3]\<rparr>)"
  | (unpack) "length box \<noteq> 4"
      and "draw_detection fnt cats (box, lbl, score) c = (Some ValueError, c)"
proof (cases "length box = 4")
  case False
  from False draw_detection_malformed [OF False] show ?thesis
    by (rule unpack)
next
  case True
  then have "\<exists>x1 y1 x2 y2. box = [x1, y1, x2, y2]"
    by (simp only: length_four)
  then obtain x1 y1 x2 y2 where box: "box = [x1, y1, x2, y2]"
    by (elim exE)
  show ?thesis
  proof (cases "label_text cats lbl score")
    case (Inl e)
    then have e: "e = IndexError"
      and range: "lbl < - int (length cats) \<or> int (length cats) \<le> lbl"
      by (simp_all add: label_text_Inl_iff)
    have "draw_detection fnt cats (box, lbl, score) c =
            (Some IndexError, c\<lparr>drawn := drawn c @ [Rectangle [x1, y1, x2, y2] ''lime'' 3]\<rparr>)"
      unfolding box using draw_detection_raises [OF Inl] e by simp
    with box range show ?thesis
      by (rule index)
  next
    case (Inr label)
    have "draw_detection fnt cats (box, lbl, score) c =
            (None, c\<lparr>drawn := drawn c @
               Rectangle [x1, y1, x2, y2] ''lime'' 3 #
               map (\<lambda>(dx, dy). Text (x1 + 3 + dx, y1 - 3 + dy) label fnt ''black'') offsets @
               [Text (x1 + 3, y1 - 3) label fnt ''white'']\<rparr>)"
      unfolding box by (rule draw_detection_drawn [OF Inr])
    with box Inr show ?thesis
      by (rule drawn)
  qed
qed






subsection \<open>Sequences of unequal lengths\<close>







subsection \<open>The threshold\<close>



subsection \<open>Label indices outside the vocabulary\<close>






subsection \<open>The label text\<close>



section \<open>Annotation and the image it is given\<close>

lemma draw_loop_picture:
  "picture (snd (draw_loop fnt cats thr ds c)) = picture c"
proof (induction ds arbitrary: c)
  case Nil
  show ?case by simp
next
  case (Cons d ds)
  obtain box lbl score where d: "d = (box, lbl, score)"
    by (cases d)
  show ?case
  proof (cases "score < thr")
    case True
    then show ?thesis using d Cons.IH by simp
  next
    case False
    show ?thesis
    proof (cases rule: draw_detection_cases [of box cats lbl score fnt c])
      case (drawn x1 y1 x2 y2 label)
      from drawn(3) show ?thesis
        using d False Cons.IH by simp
    next
      case (index x1 y1 x2 y2)
      from index(3) show ?thesis
        using d False by simp
    next
      case unpack
      from unpack(2) show ?thesis
        using d False by simp
    qed
  qed
qed

lemma draw_boxes_picture:
  "picture (snd (draw_boxes tt c boxes labels scores cats thr)) = picture c"
  by (simp add: draw_boxes_def draw_loop_picture)

text \<open>draw_boxes itself works in place: it changes the object it is given and returns it.\<close>

lemma draw_boxes_ref_in_place:
  assumes "r < length h"
  shows "\<exists>res h'. draw_boxes_ref tt h r boxes labels scores cats thr = (res, h') \<and>
           (res = Inr r \<or> (\<exists>e. res = Inl e)) \<and>
           h' = h[r := snd (draw_boxes tt (h ! r) boxes labels scores cats thr)]"
proof (cases "draw_boxes tt (h ! r) boxes labels scores cats thr")
  case (Pair e c')
  then show ?thesis
    by (cases e) (simp_all add: draw_boxes_ref_def)
qed

text \<open>
  Claim C6. The annotation of \<^verbatim>\<open>handle_photo\<close> (line 150: \<^verbatim>\<open>draw_boxes\<close> on \<^verbatim>\<open>image.copy()\<close>)
  changes no image object that existed before it, the image it is given included: it adds one
  new object to the heap, and the image it returns is that new object, of the same width and
  height as the image given. This holds also when drawing raises.
\<close>

theorem annotate_copy_on_write:
  assumes "img < length h"
  shows "\<exists>res h'. annotate tt h img boxes labels scores cats = (res, h') \<and>
           length h' = Suc (length h) \<and>
           (\<forall>r < length h. h' ! r = h ! r) \<and>
           (\<forall>r'. res = Inr r' \<longrightarrow>
              r' = length h \<and> r' \<noteq> img \<and>
              img_size (picture (h' ! r')) = img_size (picture (h ! img)))"
proof -
  let ?h1 = "h @ [h ! img]"
  let ?r = "length h"
  have r: "?r < length ?h1"
    by simp
  from draw_boxes_ref_in_place [OF r, of tt boxes labels scores cats "1 / 2"] obtain res h'
    where run: "draw_boxes_ref tt ?h1 ?r boxes labels scores cats (1 / 2) = (res, h')"
      and res: "res = Inr ?r \<or> (\<exists>e. res = Inl e)"
      and h': "h' = ?h1[?r := snd (draw_boxes tt (?h1 ! ?r) boxes labels scores cats (1 / 2))]"
    by blast
  have ann: "annotate tt h img boxes labels scores cats = (res, h')"
    using run by (simp add: annotate_def copy_def)
  have len: "length h' = Suc (length h)"
    using h' by simp
  have old: "\<forall>r < length h. h' ! r = h ! r"
    using h' by (simp add: nth_append)
  have new: "h' ! ?r = snd (draw_boxes tt (h ! img) boxes labels scores cats (1 / 2))"
    using h' by simp
  have size: "img_size (picture (h' ! ?r)) = img_size (picture (h ! img))"
    using new by (simp add: draw_boxes_picture)
  have ret: "\<forall>r'. res = Inr r' \<longrightarrow>
              r' = length h \<and> r' \<noteq> img \<and>
              img_size (picture (h' ! r')) = img_size (picture (h ! img))"
    using res size assms by auto
  from ann len old ret show ?thesis
    by blast
qed

theorem annotate_copy_on_write_witness:
  "\<exists>res h'. annotate (\<lambda>_ _. None)
       [\<lparr>picture = \<lparr>img_size = (100, 100), array = Mono [], info = []\<rparr>, drawn = []\<rparr>] 0
       [[10, 10, 50, 50]] [0] [9 / 10] [''cat'', ''dog''] = (res, h') \<and>
     length h' = Suc (length [\<lparr>picture = \<lparr>img_size = (100, 100), array = Mono [], info = []\<rparr>, drawn = []\<rparr>]) \<and>
     h' ! 0 = \<lparr>picture = \<lparr>img_size = (100, 100), array = Mono [], info = []\<rparr>, drawn = []\<rparr>"
proof -
  have a: "(0 :: nat) < length [\<lparr>picture = \<lparr>img_size = (100 :: nat, 100 :: nat), array = Mono [], info = []\<rparr>, drawn = []\<rparr>]"
    by simp
  from annotate_copy_on_write [OF a, of "\<lambda>_ _. None" "[[10, 10, 50, 50]]" "[0]" "[9 / 10]" "[''cat'', ''dog'']"]
  show ?thesis by auto
qed

section \<open>Model selection\<close>

text \<open>
  Claim C4. For every fingerprint, selection either yields the key the selector predicted,
  which is then a key of \<^verbatim>\<open>models_available\<close>, together with that entry's model and
  categories, or it raises \<^verbatim>\<open>KeyError\<close> because the predicted key is not in the
  dictionary. There is no default model.
\<close>

theorem select_model_key_or_error:
  "(\<exists>mi. models_available (selector feats) = Some mi \<and>
         selector feats \<in> dom models_available \<and>
         select_model selector models_available feats =
           Inr (selector feats, info_model mi, info_categories mi)) \<or>
   (models_available (selector feats) = None \<and>
    selector feats \<notin> dom models_available \<and>
    select_model selector models_available feats = Inl KeyError)"
  by (cases "models_available (selector feats)") (auto simp: select_model_def)

section \<open>Properties of extract_image_features\<close>

lemma img_hash_range: "0 \<le> img_hash a \<and> img_hash a < 1"
  by (simp add: img_hash_def)

lemma significant_area:
  assumes "c \<in> set (significant_contours cv w h g)"
  shows "0 < contourArea cv c"
proof -
  have "real (w * h) * (1 / 1000) < contourArea cv c"
    using assms by (simp add: significant_contours_def Let_def)
  moreover have "0 \<le> real (w * h) * (1 / 1000)"
    by simp
  ultimately show ?thesis by linarith
qed

lemma mean_area_nonneg: "0 \<le> mean_area cv w h (significant_contours cv w h g)"
proof -
  have "0 \<le> sum_list (map (contourArea cv) (significant_contours cv w h g))"
    by (rule sum_list_nonneg) (auto dest: significant_area less_imp_le)
  then show ?thesis
    by (simp add: mean_area_def np_mean_def)
qed

lemma extract_image_features_value:
  assumes "img_size img = (w, h)" and "w \<noteq> 0"
  shows "extract_image_features cv img =
    Inr (max 1 (py_int (real (length (significant_contours cv w h (gray_plane cv (array img)))) *
                        (8 / 10 + 4 / 10 * img_hash (array img)))),
         min (mean_area cv w h (significant_contours cv w h (gray_plane cv (array img))) *
              (7 / 10 + 6 / 10 * img_hash (array img))) 1,
         min (max 1 (py_int (5 * saturation cv (array img) +
                             3 * detail_level cv (gray_plane cv (array img)) +
                             2 * img_hash (array img)))) 10,
         real h / real w)"
  using assms by (simp add: extract_image_features_def Let_def)

text \<open>
  Claim C1. For an image of width \<open>w \<ge> 1\<close> and height \<open>h \<ge> 1\<close>, whatever OpenCV answers,
  \<^verbatim>\<open>extract_image_features\<close> returns four features \<open>(n, a, c, r)\<close> with \<open>n \<ge> 1\<close>,
  \<open>0 \<le> a \<le> 1\<close>, \<open>1 \<le> c \<le> 10\<close> and \<open>r = h / w\<close>, the ratio not clamped.
\<close>

theorem extract_image_features_bounds:
  assumes "img_size img = (w, h)" and "1 \<le> w" and "1 \<le> h"
  shows "\<exists>n a c r. extract_image_features cv img = Inr (n, a, c, r) \<and>
           1 \<le> n \<and> 0 \<le> a \<and> a \<le> 1 \<and> 1 \<le> c \<and> c \<le> 10 \<and> r = real h / real w"
proof -
  let ?ih = "img_hash (array img)"
  let ?sig = "significant_contours cv w h (gray_plane cv (array img))"
  let ?ma = "mean_area cv w h ?sig"
  have w: "w \<noteq> 0"
    using assms(2) by simp
  have "0 \<le> ?ih"
    using img_hash_range by blast
  then have "0 \<le> 7 / 10 + 6 / 10 * ?ih"
    by simp
  with mean_area_nonneg have "0 \<le> ?ma * (7 / 10 + 6 / 10 * ?ih)"
    by (rule mult_nonneg_nonneg)
  then have a: "0 \<le> min (?ma * (7 / 10 + 6 / 10 * ?ih)) 1"
    by simp
  show ?thesis
    unfolding extract_image_features_value [OF assms(1) w] using a by simp
qed





subsection \<open>Images of a single grey value\<close>

lemma concat_replicate_replicate: "concat (replicate n (replicate m x)) = replicate (n * m) x"
  by (induction n) (simp_all add: replicate_add)

lemma opencv_on_uniform_sel:
  "cvtColor_RGB2HSV opencv_on_uniform = map (map (\<lambda>(r, g, b). (0, 0, r)))"
  "cvtColor_RGB2GRAY opencv_on_uniform = map (map (\<lambda>(r, g, b). r))"
  "Sobel opencv_on_uniform = (\<lambda>g dx dy ksize. map (map (\<lambda>v. 0)) g)"
  "threshold_otsu opencv_on_uniform = map (map (\<lambda>v. if 0 < v then 255 else 0))"
  "findContours opencv_on_uniform = frame_contours"
  "contourArea opencv_on_uniform = polygon_area"
  by (simp_all add: opencv_on_uniform_def)

lemma uniform_image_sel:
  "img_size (uniform_image w h v) = (w, h)"
  "array (uniform_image w h v) = Color (replicate h (replicate w (v, v, v)))"
  by (simp_all add: uniform_image_def)

lemma img_hash_uniform:
  "img_hash (array (uniform_image w h v)) = real (h * w * (3 * unat v) mod 2 ^ 64 mod 1000) / 1000"
proof -
  have three: "unat v + unat v + unat v = 3 * unat v"
    by simp
  show ?thesis
    by (simp add: img_hash_def np_sum_def uniform_image_sel concat_replicate_replicate
        sum_list_replicate three)
qed

lemma saturation_uniform: "saturation opencv_on_uniform (array (uniform_image w h v)) = 0"
  by (simp add: saturation_def uniform_image_sel opencv_on_uniform_sel np_mean_def
      concat_replicate_replicate sum_list_replicate)

lemma gray_plane_uniform:
  "gray_plane opencv_on_uniform (array (uniform_image w h v)) = replicate h (replicate w v)"
  by (simp add: gray_plane_def uniform_image_sel opencv_on_uniform_sel)

lemma detail_level_uniform: "detail_level opencv_on_uniform (replicate h (replicate w v)) = 0"
  by (simp add: detail_level_def Let_def opencv_on_uniform_sel np_mean_def
      concat_replicate_replicate sum_list_replicate)


lemma frame_contours_black: "frame_contours (replicate h (replicate w 0)) = []"
  by (auto simp: frame_contours_def list_all_iff)


lemma significant_contours_black:
  "significant_contours opencv_on_uniform w h (replicate h (replicate w 0)) = []"
  by (simp add: significant_contours_def Let_def opencv_on_uniform_sel frame_contours_black)


lemma extract_uniform:
  assumes "w \<noteq> 0"
  shows "extract_image_features opencv_on_uniform (uniform_image w h v) =
    Inr (max 1 (py_int (real (length (significant_contours opencv_on_uniform w h
                                        (replicate h (replicate w v)))) *
                        (8 / 10 + 4 / 10 * img_hash (array (uniform_image w h v))))),
         min (mean_area opencv_on_uniform w h
                (significant_contours opencv_on_uniform w h (replicate h (replicate w v))) *
              (7 / 10 + 6 / 10 * img_hash (array (uniform_image w h v)))) 1,
         min (max 1 (py_int (2 * img_hash (array (uniform_image w h v))))) 10,
         real h / real w)"
proof -
  have "img_size (uniform_image w h v) = (w, h)"
    by (rule uniform_image_sel)
  from extract_image_features_value [OF this assms, of opencv_on_uniform]
  show ?thesis
    by (simp add: gray_plane_uniform saturation_uniform detail_level_uniform)
qed









lemma extract_black_100:
  "extract_image_features opencv_on_uniform (uniform_image 100 100 0) = Inr (1, 7 / 100, 1, 1)"
  by (simp add: extract_uniform significant_contours_black img_hash_uniform mean_area_def
      py_int_def)

theorem extract_image_features_bounds_witness:
  "\<exists>n a c r. extract_image_features opencv_on_uniform (uniform_image 100 100 255) = Inr (n, a, c, r) \<and>
     1 \<le> n \<and> 0 \<le> a \<and> a \<le> 1 \<and> 1 \<le> c \<and> c \<le> 10 \<and> r = real 100 / real 100"
proof -
  have s: "img_size (uniform_image 100 100 255) = (100, 100)"
    by (rule uniform_image_sel)
  have w: "(1 :: nat) \<le> 100"
    by simp
  from extract_image_features_bounds [OF s w w, of opencv_on_uniform] show ?thesis .
qed






end
